theory Spec2Isabelle
  imports Complex_Main
begin

section \<open>radioflux: beam-normalised flux measurement on radio maps\<close>

text \<open>
  A shallow embedding of \<^verbatim>\<open>radioflux.py\<close>: the function \<^verbatim>\<open>flatten\<close>, the
  constructor of the class \<^verbatim>\<open>radiomap\<close> and the constructor of the class
  \<^verbatim>\<open>applyregion\<close>.

  Conventions of the embedding.
  \<^item> Python floats and numpy's float64 are idealised as \<^typ>\<open>real\<close>: rounding,
    infinities and NaN are not modelled. numpy divides a float by zero without an
    exception; a theorem that states the value of a quotient by a variable assumes that
    the divisor is not zero.
  \<^item> An exception is a value \<open>Inl e\<close> of the sum type \<open>error + 'a\<close>.
  \<^item> The libraries the program calls (astropy's header and coordinate transform, numpy,
    pyregion) are modelled by what the program reads from them.
\<close>

subsection \<open>Errors and values\<close>

datatype error =
    RadioError string
  | KeyError
  | IndexError
  | ValueError
  | TypeError
  | NameError

definition bind_err :: "error + 'a \<Rightarrow> ('a \<Rightarrow> error + 'b) \<Rightarrow> error + 'b" where
  "bind_err m k = (case m of Inl e \<Rightarrow> Inl e | Inr x \<Rightarrow> k x)"

text \<open>The value of a header card, or \<open>PNone\<close> for Python's \<^verbatim>\<open>None\<close>.\<close>

datatype pyval = PNone | PInt int | PFloat real | PStr string

text \<open>Python's truth value of a card, as \<^verbatim>\<open>if r:\<close> tests it.\<close>

fun truthy :: "pyval \<Rightarrow> bool" where
  "truthy PNone = False"
| "truthy (PInt i) = (i \<noteq> 0)"
| "truthy (PFloat r) = (r \<noteq> 0)"
| "truthy (PStr s) = (s \<noteq> [])"

subsection \<open>Arrays, headers and images\<close>

text \<open>
  A numpy array is a view on a buffer: the address of the buffer and a shape. Every array
  of this program starts at the beginning of its buffer and is laid out row by row, so a
  view needs no offset and no strides. The shape lists the axes as numpy does, the slowest
  first: for the data of a FITS image these are \<^verbatim>\<open>NAXISn\<close>, ..., \<^verbatim>\<open>NAXIS2\<close>,
  \<^verbatim>\<open>NAXIS1\<close>, so the axes beyond the first two of the image are the leading ones of the
  array. The buffers live in the heap (below); the functions \<^verbatim>\<open>flatten\<close> and
  \<^verbatim>\<open>radiomap.__init__\<close> handle arrays by reference only.
\<close>

type_synonym addr = nat

record ndarray =
  buf :: addr
  shape :: "nat list"

text \<open>
  The coordinate transform \<^verbatim>\<open>wcs.WCS(header)\<close> that astropy builds from a header: one
  entry per axis in each list.
\<close>

record wcs =
  crpix :: "real list"
  cdelt :: "real list"
  crval :: "real list"
  ctype :: "string list"

text \<open>
  A FITS header. \<open>naxis\<close> is the mandatory integer card \<^verbatim>\<open>NAXIS\<close>. \<open>cards\<close> holds the
  scalar cards read by name (\<^verbatim>\<open>BMAJ\<close>, \<^verbatim>\<open>BUNIT\<close>, \<^verbatim>\<open>EQUINOX\<close>, ...). \<open>axes\<close> holds
  the values of \<^verbatim>\<open>header.get('CTYPE'+str(i))\<close> and \<^verbatim>\<open>header.get('CRVAL'+str(i))\<close> for
  \<open>i = 1, 2, ...\<close>, in this order. \<open>history\<close> is the list \<^verbatim>\<open>header['HISTORY']\<close>, or
  \<open>None\<close> where that lookup raises \<^verbatim>\<open>KeyError\<close>. \<open>wcs_of\<close> is the transform astropy
  builds from the header.
\<close>

record header =
  naxis :: int
  cards :: "string \<rightharpoonup> pyval"
  axes :: "(pyval \<times> pyval) list"
  history :: "string list option"
  wcs_of :: wcs

text \<open>\<^verbatim>\<open>header.get(k)\<close>: the card, or \<^verbatim>\<open>None\<close>.\<close>

definition get :: "header \<Rightarrow> string \<Rightarrow> pyval" where
  "get h k = (case cards h k of None \<Rightarrow> PNone | Some v \<Rightarrow> v)"

text \<open>The primary HDU \<^verbatim>\<open>fitsfile[0]\<close>: a header and a data array.\<close>

record hdu =
  hdr :: header
  data :: ndarray

subsection \<open>flatten\<close>

text \<open>\<^verbatim>\<open>xs[i]\<close> on a sequence, raising \<^verbatim>\<open>IndexError\<close> out of range.\<close>

definition item :: "'a list \<Rightarrow> nat \<Rightarrow> error + 'a" where
  "item xs i = (if i < length xs then Inr (xs ! i) else Inl IndexError)"

text \<open>
  \<^verbatim>\<open>a[0]\<close> on an array: the first sub-array along the leading axis, a view on the same
  buffer. It raises \<^verbatim>\<open>IndexError\<close> on a 0-dimensional array and on a leading axis of
  length 0.
\<close>

definition index0 :: "ndarray \<Rightarrow> error + ndarray" where
  "index0 a = (case shape a of
       [] \<Rightarrow> Inl IndexError
     | n # ns \<Rightarrow> if n = 0 then Inl IndexError else Inr (a\<lparr>shape := ns\<rparr>))"

text \<open>
  \<^verbatim>\<open>a[(0,)*k + (np.s_[:],)*2]\<close>: index 0 on the \<open>k\<close> leading axes and the full extent
  of the next two. numpy refuses an index tuple longer than the array has axes.
\<close>

fun index0s :: "nat \<Rightarrow> ndarray \<Rightarrow> error + ndarray" where
  "index0s 0 a = Inr a"
| "index0s (Suc k) a = bind_err (index0 a) (index0s k)"

definition first_plane :: "nat \<Rightarrow> ndarray \<Rightarrow> error + ndarray" where
  "first_plane k a =
     (if length (shape a) < k + 2 then Inl IndexError else index0s k a)"

text \<open>The fresh transform \<^verbatim>\<open>wcs.WCS(naxis=2)\<close>.\<close>

definition wcs_naxis2 :: wcs where
  "wcs_naxis2 = \<lparr>crpix = [0, 0], cdelt = [1, 1], crval = [0, 0], ctype = [[], []]\<rparr>"

text \<open>
  \<^verbatim>\<open>wn.to_header()\<close>: a new header that describes the transform \<open>wn\<close>; it has no
  \<^verbatim>\<open>NAXIS\<close> card yet (the caller sets it), no other scalar card and no history.
\<close>

definition to_header :: "wcs \<Rightarrow> header" where
  "to_header wn =
     \<lparr>naxis = 0, cards = Map.empty,
      axes = zip (map PStr (ctype wn)) (map PFloat (crval wn)),
      history = None, wcs_of = wn\<rparr>"

text \<open>The loop \<^verbatim>\<open>for k in copy: r = f[0].header.get(k); if r: header[k] = r\<close>.\<close>

fun copy_cards :: "header \<Rightarrow> string list \<Rightarrow> header \<Rightarrow> header" where
  "copy_cards src [] h = h"
| "copy_cards src (k # ks) h =
     (let r = get src k
      in copy_cards src ks (if truthy r then h\<lparr>cards := (cards h)(k \<mapsto> r)\<rparr> else h))"

definition flatten :: "hdu \<Rightarrow> error + (header \<times> ndarray)" where
  "flatten f =
     (let naxis = naxis (hdr f) in
      if naxis < 2 then Inl (RadioError ''Can't make map from this'')
      else if naxis = 2 then Inr (hdr f, data f)
      else
        let w = wcs_of (hdr f) in
        bind_err (item (crpix w) 0) (\<lambda>crpix0.
        bind_err (item (crpix w) 1) (\<lambda>crpix1.
        bind_err (item (ctype w) 0) (\<lambda>ctype0.
        bind_err (item (ctype w) 1) (\<lambda>ctype1.
          let wn = wcs_naxis2\<lparr>crpix := [crpix0, crpix1], cdelt := take 2 (cdelt w),
                    crval := take 2 (crval w), ctype := [ctype0, ctype1]\<rparr>;
              header = (to_header wn)\<lparr>naxis := 2\<rparr>;
              header = copy_cards (hdr f) [''EQUINOX'', ''EPOCH''] header
          in bind_err (first_plane (nat (naxis - 2)) (data f)) (\<lambda>plane.
               Inr (header, plane)))))))"

subsection \<open>Reading an element of an array\<close>

text \<open>
  The buffers of the heap: the buffer at address \<open>a\<close> is \<open>bs ! a\<close>. \<open>offset\<close> is
  the position of a multi-index in a row-by-row layout, and \<open>getitem\<close> is
  \<^verbatim>\<open>a[i1, ..., in]\<close> with one index per axis, raising \<^verbatim>\<open>IndexError\<close> out of range.
\<close>

type_synonym buffers = "real list list"

fun offset :: "nat list \<Rightarrow> nat list \<Rightarrow> nat" where
  "offset (n # ns) (i # js) = i * prod_list ns + offset ns js"
| "offset _ _ = 0"

definition getitem :: "buffers \<Rightarrow> ndarray \<Rightarrow> nat list \<Rightarrow> error + real" where
  "getitem bs a idx =
     (if list_all2 (<) idx (shape a) then Inr (bs ! buf a ! offset (shape a) idx)
      else Inl IndexError)"

subsection \<open>Strings: membership, split and float\<close>

text \<open>\<^verbatim>\<open>sub in line\<close>: \<open>sub\<close> occurs in \<open>line\<close> as a contiguous substring.\<close>

fun contains :: "string \<Rightarrow> string \<Rightarrow> bool" where
  "contains sub [] = (sub = [])"
| "contains sub (c # cs) = (take (length sub) (c # cs) = sub \<or> contains sub cs)"

text \<open>
  \<^verbatim>\<open>line.split()\<close>: the maximal runs of characters that are not whitespace. \<open>tok\<close> is
  the token read so far.
\<close>

definition is_space :: "char \<Rightarrow> bool" where
  "is_space c = (c \<in> set [CHR '' '', CHR 0x09, CHR 0x0A, CHR 0x0B, CHR 0x0C, CHR 0x0D])"

fun split_from :: "string \<Rightarrow> string \<Rightarrow> string list" where
  "split_from tok [] = (if tok = [] then [] else [tok])"
| "split_from tok (c # cs) =
     (if is_space c then (if tok = [] then split_from [] cs else tok # split_from [] cs)
      else split_from (tok @ [c]) cs)"

definition split :: "string \<Rightarrow> string list" where
  "split line = split_from [] line"

text \<open>
  \<^verbatim>\<open>float(tok)\<close> on a token without whitespace: an optional sign, digits with an
  optional fraction (at least one digit in all), an optional exponent. \<open>None\<close> stands for
  \<^verbatim>\<open>ValueError\<close>. The value is the exact decimal value. The spellings of the
  non-finite floats (\<^verbatim>\<open>inf\<close>, \<^verbatim>\<open>nan\<close>), which have no real value, are outside
  this development and are \<open>None\<close> here as well.
\<close>

definition is_digit :: "char \<Rightarrow> bool" where
  "is_digit c = (c \<in> set ''0123456789'')"

definition digit_val :: "char \<Rightarrow> nat" where
  "digit_val c = of_char c - 48"

definition digits_val :: "string \<Rightarrow> nat" where
  "digits_val ds = foldl (\<lambda>n c. 10 * n + digit_val c) 0 ds"

definition strip_sign :: "string \<Rightarrow> bool \<times> string" where
  "strip_sign s = (case s of
       [] \<Rightarrow> (False, [])
     | c # cs \<Rightarrow> if c = CHR ''-'' then (True, cs)
                else if c = CHR ''+'' then (False, cs) else (False, s))"

definition py_exponent :: "string \<Rightarrow> int option" where
  "py_exponent s = (case s of
       [] \<Rightarrow> Some 0
     | c # cs \<Rightarrow>
         if c = CHR ''e'' \<or> c = CHR ''E'' then
           (let (neg, ds) = strip_sign cs in
            if ds \<noteq> [] \<and> list_all is_digit ds
            then Some (if neg then - int (digits_val ds) else int (digits_val ds))
            else None)
         else None)"

definition scale10 :: "real \<Rightarrow> int \<Rightarrow> real" where
  "scale10 m e = (if 0 \<le> e then m * 10 ^ nat e else m / 10 ^ nat (- e))"

definition py_float :: "string \<Rightarrow> real option" where
  "py_float s =
     (let (neg, s1) = strip_sign s;
          ip = takeWhile is_digit s1;
          r1 = dropWhile is_digit s1;
          fp = (case r1 of [] \<Rightarrow> []
                | c # cs \<Rightarrow> if c = CHR ''.'' then takeWhile is_digit cs else []);
          r2 = (case r1 of [] \<Rightarrow> []
                | c # cs \<Rightarrow> if c = CHR ''.'' then dropWhile is_digit cs else r1)
      in if ip = [] \<and> fp = [] then None
         else case py_exponent r2 of
                None \<Rightarrow> None
              | Some e \<Rightarrow>
                  let m = scale10 (real (digits_val (ip @ fp))) (e - int (length fp))
                  in Some (if neg then - m else m))"

subsection \<open>radiomap\<close>

text \<open>
  The attributes of a \<^verbatim>\<open>radiomap\<close> object. \<open>rm_f\<close> and \<open>rm_d\<close> are the attributes
  \<^verbatim>\<open>f\<close> and \<^verbatim>\<open>d\<close>; \<open>bmaj\<close> and \<open>bmin\<close> are in pixels.
\<close>

record radiomap =
  rm_f :: hdu
  prhd :: header
  units :: pyval
  bmaj :: real
  bmin :: real
  frq :: pyval
  area :: real
  fhead :: header
  rm_d :: ndarray

definition gfactor :: real where
  "gfactor = 2 * sqrt (2 * ln 2)"

text \<open>
  Lines 54 to 58: the unit. The warning printed when it is not \<^verbatim>\<open>JY/BEAM\<close> changes
  nothing else and is left out.
\<close>

definition resolve_units :: "header \<Rightarrow> pyval" where
  "resolve_units h = (let u = get h ''BUNIT'' in if u = PNone then get h ''UNIT'' else u)"

text \<open>
  Lines 72 to 74, for one history line that contains the marker: split it, convert the
  tokens at indices 3 and 5.
\<close>

definition parse_line :: "string \<Rightarrow> error + (real \<times> real)" where
  "parse_line line =
     (let bits = split line in
      bind_err (item bits 3) (\<lambda>b3.
      case py_float b3 of
        None \<Rightarrow> Inl ValueError
      | Some x \<Rightarrow>
          bind_err (item bits 5) (\<lambda>b5.
          case py_float b5 of
            None \<Rightarrow> Inl ValueError
          | Some y \<Rightarrow> Inr (x, y))))"

text \<open>
  Lines 70 to 74: the loop over the history lines. The pair is \<^verbatim>\<open>(self.bmaj, self.bmin)\<close>.
  The loop has no \<^verbatim>\<open>break\<close>.
\<close>

fun scan_history :: "string list \<Rightarrow> pyval \<times> pyval \<Rightarrow> error + (pyval \<times> pyval)" where
  "scan_history [] bm = Inr bm"
| "scan_history (line # rest) bm =
     (if contains ''CLEAN BMAJ'' line then
        bind_err (parse_line line) (\<lambda>(x, y). scan_history rest (PFloat x, PFloat y))
      else scan_history rest bm)"

text \<open>
  Lines 59 to 79: the beam. Only \<^verbatim>\<open>KeyError\<close> is caught around the history scan.
\<close>

definition resolve_beam :: "header \<Rightarrow> error + (pyval \<times> pyval)" where
  "resolve_beam h =
     (let bm = (get h ''BMAJ'', get h ''BMIN'');
          bm = (if fst bm = PNone then (get h ''RESOL1'', get h ''RESOL2'') else bm)
      in bind_err
           (if fst bm = PNone then
              (case history h of None \<Rightarrow> Inr bm | Some lines \<Rightarrow> scan_history lines bm)
            else Inr bm)
           (\<lambda>bm. if fst bm = PNone then Inl (RadioError ''No beam information found'')
                  else Inr bm))"

text \<open>
  Lines 88 to 97: the loop over \<^verbatim>\<open>CTYPE1\<close>, \<^verbatim>\<open>CTYPE2\<close>, ... It stops at the first
  missing card and at the first card \<^verbatim>\<open>FREQ\<close>.
\<close>

fun scan_ctype :: "(pyval \<times> pyval) list \<Rightarrow> pyval" where
  "scan_ctype [] = PNone"
| "scan_ctype ((ctype_i, crval_i) # rest) =
     (if ctype_i = PNone then PNone
      else if ctype_i = PStr ''FREQ'' then crval_i
      else scan_ctype rest)"

text \<open>Lines 82 to 101: the frequency (the warning is left out).\<close>

definition resolve_frq :: "header \<Rightarrow> pyval" where
  "resolve_frq h =
     (let frq = get h ''RESTFRQ'';
          frq = (if frq = PNone then get h ''RESTFREQ'' else frq);
          frq = (if frq = PNone then get h ''FREQ'' else frq);
          frq = (if frq = PNone then scan_ctype (axes h) else frq)
      in if frq = PNone then PInt 0 else frq)"

text \<open>
  Line 106: \<^verbatim>\<open>((cd1-cd2)/cd1)>1.0001 and ((bmaj-bmin)/bmin)>1.0001\<close>. The second operand
  reads the names \<^verbatim>\<open>bmaj\<close> and \<^verbatim>\<open>bmin\<close>, which are bound nowhere (the beam is in
  \<^verbatim>\<open>self.bmaj\<close> and \<^verbatim>\<open>self.bmin\<close>): evaluating it raises \<^verbatim>\<open>NameError\<close>. Python
  evaluates the second operand of \<^verbatim>\<open>and\<close> only when the first is true.
\<close>

definition py_and :: "bool \<Rightarrow> error + bool \<Rightarrow> error + bool" where
  "py_and a b = (if a then b else Inr False)"

definition beam_elliptical :: "error + bool" where
  "beam_elliptical = Inl NameError"

text \<open>Lines 106 and 107 (the message without the two numbers it formats).\<close>

definition check_square :: "real \<Rightarrow> real \<Rightarrow> error + unit" where
  "check_square cd1 cd2 =
     bind_err (py_and ((cd1 - cd2) / cd1 > 1.0001) beam_elliptical) (\<lambda>c.
       if c then Inl (RadioError ''Pixels are not square and beam is elliptical'')
       else Inr ())"

text \<open>
  \<^verbatim>\<open>x /= c\<close> for a card \<open>x\<close> and a float \<open>c\<close>: \<^verbatim>\<open>TypeError\<close> when \<open>x\<close> is
  \<^verbatim>\<open>None\<close> or a string.
\<close>

fun idiv :: "pyval \<Rightarrow> real \<Rightarrow> error + real" where
  "idiv (PInt i) c = Inr (real_of_int i / c)"
| "idiv (PFloat r) c = Inr (r / c)"
| "idiv PNone c = Inl TypeError"
| "idiv (PStr s) c = Inl TypeError"

text \<open>Line 114.\<close>

definition beam_area :: "real \<Rightarrow> real \<Rightarrow> real" where
  "beam_area bmaj_px bmin_px = 2 * pi * (bmaj_px * bmin_px) / (gfactor * gfactor)"

text \<open>\<^verbatim>\<open>radiomap.__init__(self, fitsfile)\<close>; \<open>f\<close> is \<^verbatim>\<open>fitsfile[0]\<close>.\<close>

definition radiomap_init :: "hdu \<Rightarrow> error + radiomap" where
  "radiomap_init f =
     (let prhd = hdr f;
          units = resolve_units prhd
      in bind_err (resolve_beam prhd) (\<lambda>(bmaj0, bmin0).
         let frq = resolve_frq prhd;
             w = wcs_of prhd
         in bind_err (item (cdelt w) 0) (\<lambda>cdelt0.
            bind_err (item (cdelt w) 1) (\<lambda>cdelt1.
            let cd1 = - cdelt0;
                cd2 = cdelt1
            in bind_err (check_square cd1 cd2) (\<lambda>_.
               bind_err (idiv bmaj0 cd1) (\<lambda>bmaj_px.
               bind_err (idiv bmin0 cd2) (\<lambda>bmin_px.
               bind_err (flatten f) (\<lambda>(fhead, d).
                 Inr \<lparr>rm_f = f, prhd = prhd, units = units,
                      bmaj = bmaj_px, bmin = bmin_px, frq = frq,
                      area = beam_area bmaj_px bmin_px,
                      fhead = fhead, rm_d = d\<rparr>))))))))"

subsection \<open>applyregion\<close>

text \<open>
  The heap: the \<^verbatim>\<open>radiomap\<close> objects and the buffers of the arrays, each addressed by
  its index. An object or an array is passed by its address.
\<close>

record heap =
  objs :: "radiomap list"
  bufs :: buffers

text \<open>
  The attributes of an \<^verbatim>\<open>applyregion\<close> object; \<open>error\<close> is \<open>None\<close> while the
  attribute is not set.
\<close>

record measurement =
  pixels :: nat
  rms :: real
  flux :: real
  mean :: real
  error :: "real option"

text \<open>
  The keyword arguments \<^verbatim>\<open>**extras\<close> that the constructor reads; \<open>None\<close> for a key
  that is not in \<^verbatim>\<open>extras\<close>.
\<close>

record extras =
  background :: "real option"
  offsource :: "real option"

text \<open>
  A pyregion shape list, by what the program asks of it:
  \<^verbatim>\<open>region.get_mask(hdu=..., shape=...)\<close>, a new boolean array, here row by row.
\<close>

type_synonym region = "hdu \<Rightarrow> nat list \<Rightarrow> bool list"

text \<open>\<^verbatim>\<open>a.ravel()\<close>: the elements of the array, row by row.\<close>

definition ravel :: "buffers \<Rightarrow> ndarray \<Rightarrow> real list" where
  "ravel bs a = take (prod_list (shape a)) (bs ! buf a)"

text \<open>\<^verbatim>\<open>np.sum(mask)\<close>: the number of true entries.\<close>

definition np_sum_mask :: "bool list \<Rightarrow> nat" where
  "np_sum_mask msk = length (filter id msk)"

text \<open>
  \<^verbatim>\<open>np.extract(mask, arr)\<close>, which is \<^verbatim>\<open>np.take(ravel(arr), nonzero(ravel(mask))[0])\<close>:
  a new one-dimensional array, in a new buffer, of the elements of \<open>arr\<close> at the true
  positions of the mask; \<^verbatim>\<open>IndexError\<close> when a true position is beyond the array.
\<close>

definition nonzero :: "bool list \<Rightarrow> nat list" where
  "nonzero msk = filter (\<lambda>i. msk ! i) [0..<length msk]"

definition np_extract :: "bool list \<Rightarrow> ndarray \<Rightarrow> heap \<Rightarrow> (error + ndarray) \<times> heap" where
  "np_extract msk arr h =
     (let xs = ravel (bufs h) arr;
          idx = nonzero msk
      in if list_all (\<lambda>i. i < length xs) idx
         then (Inr \<lparr>buf = length (bufs h), shape = [length idx]\<rparr>,
               h\<lparr>bufs := bufs h @ [map (\<lambda>i. xs ! i) idx]\<rparr>)
         else (Inl IndexError, h))"

text \<open>\<^verbatim>\<open>a -= v\<close>: subtracts \<open>v\<close> from every element of the array, in its buffer.\<close>

definition isub :: "ndarray \<Rightarrow> real \<Rightarrow> heap \<Rightarrow> heap" where
  "isub a v h =
     (let n = prod_list (shape a);
          b = bufs h ! buf a
      in h\<lparr>bufs := (bufs h)[buf a := map (\<lambda>x. x - v) (take n b) @ drop n b]\<rparr>)"

text \<open>\<^verbatim>\<open>a.sum()\<close>, \<^verbatim>\<open>a.mean()\<close> and \<^verbatim>\<open>a.std()\<close> on the elements of an array.\<close>

definition np_mean :: "real list \<Rightarrow> real" where
  "np_mean xs = sum_list xs / real (length xs)"

definition np_std :: "real list \<Rightarrow> real" where
  "np_std xs = sqrt (np_mean (map (\<lambda>x. (x - np_mean xs)\<^sup>2) xs))"

text \<open>
  \<^verbatim>\<open>applyregion.__init__(self, rm, region, **extras)\<close>; \<open>rm\<close> is the address of the
  \<^verbatim>\<open>radiomap\<close> object and \<open>data_arr\<close> is the local \<^verbatim>\<open>data\<close>. It returns the
  new object and the heap it leaves.
\<close>

definition applyregion ::
  "addr \<Rightarrow> region \<Rightarrow> extras \<Rightarrow> heap \<Rightarrow> (error + measurement) \<times> heap" where
  "applyregion rm region ex h =
     (let bgval = (case background ex of None \<Rightarrow> 0 | Some b \<Rightarrow> b);
          mask = region (rm_f (objs h ! rm)) (shape (rm_d (objs h ! rm)));
          pixels = np_sum_mask mask;
          (r, h1) = np_extract mask (rm_d (objs h ! rm)) h
      in case r of
           Inl e \<Rightarrow> (Inl e, h1)
         | Inr data_arr \<Rightarrow>
             let h2 = isub data_arr bgval h1;
                 xs = ravel (bufs h2) data_arr
             in (Inr \<lparr>pixels = pixels,
                      rms = np_std xs,
                      flux = sum_list xs / area (objs h2 ! rm),
                      mean = np_mean xs,
                      error = (case offsource ex of
                                 None \<Rightarrow> None
                               | Some noise \<Rightarrow>
                                   Some (noise * sqrt (real pixels / area (objs h2 ! rm))))\<rparr>,
                 h2))"

subsection \<open>Example images\<close>

text \<open>
  A two-dimensional image of 2 by 2 pixels with the given scalar cards, history and pixel
  scales \<^verbatim>\<open>CDELT1\<close>, \<^verbatim>\<open>CDELT2\<close>.
\<close>

definition example_wcs :: "real \<Rightarrow> real \<Rightarrow> wcs" where
  "example_wcs c1 c2 =
     \<lparr>crpix = [1, 1], cdelt = [c1, c2], crval = [0, 0],
      ctype = [''RA---SIN'', ''DEC--SIN'']\<rparr>"

definition example_image ::
  "(string \<times> pyval) list \<Rightarrow> string list option \<Rightarrow> real \<Rightarrow> real \<Rightarrow> hdu" where
  "example_image cs hist c1 c2 =
     \<lparr>hdr = \<lparr>naxis = 2, cards = map_of cs,
              axes = [(PStr ''RA---SIN'', PFloat 0), (PStr ''DEC--SIN'', PFloat 0)],
              history = hist, wcs_of = example_wcs c1 c2\<rparr>,
      data = \<lparr>buf = 0, shape = [2, 2]\<rparr>\<rparr>"

text \<open>Pixels that are not square (\<open>cd1 = 1\<close>, \<open>cd2 = 2\<close>) under an elliptical beam.\<close>

definition elliptical_image :: hdu where
  "elliptical_image =
     example_image [(''BUNIT'', PStr ''JY/BEAM''), (''BMAJ'', PFloat 1), (''BMIN'', PFloat 2)]
       None (- 1) 2"

text \<open>A header with the card \<^verbatim>\<open>BMAJ\<close> and without the card \<^verbatim>\<open>BMIN\<close>.\<close>

definition bmaj_only_image :: hdu where
  "bmaj_only_image = example_image [(''BMAJ'', PFloat 1)] None (- 1) 1"

text \<open>
  A header without beam cards, whose history line with the marker has four tokens only.
\<close>

definition short_line_image :: hdu where
  "short_line_image =
     example_image [(''BUNIT'', PStr ''JY/BEAM'')] (Some [''AIPS CLEAN BMAJ 0.005'']) (- 1) 1"

text \<open>A header without any beam card and without history.\<close>

definition no_beam_image :: hdu where
  "no_beam_image = example_image [(''BUNIT'', PStr ''JY/BEAM'')] None (- 1) 1"

text \<open>The same image declared with a single axis.\<close>

definition one_axis_image :: hdu where
  "one_axis_image = elliptical_image\<lparr>hdr := (hdr elliptical_image)\<lparr>naxis := 1\<rparr>\<rparr>"

text \<open>A header with the direct cards, the fallback cards and a history line with the marker.\<close>

definition all_keys_image :: hdu where
  "all_keys_image =
     example_image
       [(''BMAJ'', PFloat 4), (''BMIN'', PFloat 3), (''RESOL1'', PFloat 8), (''RESOL2'', PFloat 7)]
       (Some [''AIPS CLEAN BMAJ 0.005 BMIN 0.003 BPA 12.0'']) (- 1) 1"

text \<open>A header with the fallback cards and a history line with the marker, without the direct cards.\<close>

definition resol_image :: hdu where
  "resol_image =
     example_image [(''RESOL1'', PFloat 8), (''RESOL2'', PFloat 7)]
       (Some [''AIPS CLEAN BMAJ 0.005 BMIN 0.003 BPA 12.0'']) (- 1) 1"

text \<open>A header without beam cards, whose history has one line with the marker.\<close>

definition history_image :: hdu where
  "history_image =
     example_image [(''BUNIT'', PStr ''JY/BEAM'')]
       (Some [''AIPS IMAGR CELLSIZE 0.001'', ''AIPS CLEAN BMAJ 0.005 BMIN 0.003 BPA 12.0''])
       (- 0.001) 0.001"

text \<open>A header without beam cards, whose history has two lines with the marker.\<close>

definition two_clean_image :: hdu where
  "two_clean_image =
     example_image [(''BUNIT'', PStr ''JY/BEAM'')]
       (Some [''AIPS CLEAN BMAJ 0.005 BMIN 0.003 BPA 12.0'',
              ''AIPS IMAGR CELLSIZE 0.001'',
              ''AIPS CLEAN BMAJ 0.002 BMIN 0.001 BPA 0.0''])
       (- 0.001) 0.001"

text \<open>A cube of four axes: 2 Stokes planes, 1 frequency plane, 2 rows, 3 columns.\<close>

definition cube_image :: hdu where
  "cube_image =
     \<lparr>hdr = \<lparr>naxis = 4, cards = [''EQUINOX'' \<mapsto> PFloat 2000],
              axes = [(PStr ''RA---SIN'', PFloat 0), (PStr ''DEC--SIN'', PFloat 0),
                      (PStr ''FREQ'', PFloat 1400000000), (PStr ''STOKES'', PFloat 1)],
              history = None,
              wcs_of = \<lparr>crpix = [1, 1, 1, 1], cdelt = [- 1, 1, 1, 1],
                        crval = [0, 0, 1400000000, 1],
                        ctype = [''RA---SIN'', ''DEC--SIN'', ''FREQ'', ''STOKES'']\<rparr>\<rparr>,
      data = \<lparr>buf = 0, shape = [2, 1, 2, 3]\<rparr>\<rparr>"

text \<open>The buffers that hold the pixels of the cube, plane by plane.\<close>

definition cube_bufs :: buffers where
  "cube_bufs = [[10, 11, 12, 13, 14, 15, 20, 21, 22, 23, 24, 25]]"

text \<open>A beam of 4 by 2 pixels on square pixels.\<close>

definition beam_4_2_image :: hdu where
  "beam_4_2_image =
     example_image [(''BUNIT'', PStr ''JY/BEAM''), (''BMAJ'', PFloat 4), (''BMIN'', PFloat 2)]
       None (- 1) 1"

text \<open>A map of 4 by 4 pixels whose beam area is 4 pixels.\<close>

definition flux_image :: hdu where
  "flux_image = beam_4_2_image\<lparr>data := \<lparr>buf = 0, shape = [4, 4]\<rparr>\<rparr>"

definition flux_map :: radiomap where
  "flux_map =
     \<lparr>rm_f = flux_image, prhd = hdr flux_image, units = PStr ''JY/BEAM'',
      bmaj = 4, bmin = 2, frq = PInt 0, area = 4, fhead = hdr flux_image,
      rm_d = data flux_image\<rparr>"

text \<open>The heap that holds this map and its 16 pixels.\<close>

definition flux_heap :: heap where
  "flux_heap = \<lparr>objs = [flux_map], bufs = [[1, 2, 3, 4, 5, 6, 7, 8, 1, 2, 3, 4, 5, 6, 7, 8]]\<rparr>"

text \<open>A region that covers every pixel.\<close>

definition whole_region :: region where
  "whole_region f sh = replicate (prod_list sh) True"

text \<open>A region of four pixels: the first two of the first two rows.\<close>

definition corner_region :: region where
  "corner_region f sh =
     [True, True, False, False, True, True, False, False,
      False, False, False, False, False, False, False, False]"

section \<open>Properties\<close>

subsection \<open>Errors of the parts\<close>

lemmas init_defs = radiomap_init_def resolve_beam_def resolve_units_def resolve_frq_def
  get_def bind_err_def item_def check_square_def py_and_def beam_elliptical_def flatten_def
  example_image_def example_wcs_def Let_def

lemmas parse_defs = parse_line_def split_def is_space_def py_float_def strip_sign_def
  is_digit_def py_exponent_def scale10_def digits_val_def digit_val_def

lemma bind_err_Inr:
  "bind_err m k = Inr y \<longleftrightarrow> (\<exists>x. m = Inr x \<and> k x = Inr y)"
  by (cases m) (simp_all add: bind_err_def)

lemma bind_err_Inl:
  "bind_err m k = Inl e \<longleftrightarrow> m = Inl e \<or> (\<exists>x. m = Inr x \<and> k x = Inl e)"
  by (cases m) (simp_all add: bind_err_def)

lemma item_Inl: "item xs i = Inl e \<Longrightarrow> e = IndexError"
  by (simp add: item_def split: if_splits)

lemma idiv_Inl: "idiv x c = Inl e \<Longrightarrow> e = TypeError"
  by (cases x) simp_all

lemma idiv_Inr: "idiv x c = Inr r \<Longrightarrow> x \<noteq> PNone"
  by (cases x) auto

text \<open>The check of line 106 never reaches the \<^verbatim>\<open>raise\<close> of line 107.\<close>

lemma check_square_cases:
  "check_square cd1 cd2 = (if (cd1 - cd2) / cd1 > 1.0001 then Inl NameError else Inr ())"
  by (simp add: check_square_def py_and_def beam_elliptical_def bind_err_def)

lemma check_square_Inl: "check_square cd1 cd2 = Inl e \<Longrightarrow> e = NameError"
  by (simp add: check_square_cases split: if_splits)

lemma index0s_Inl: "index0s k a = Inl e \<Longrightarrow> e = IndexError"
proof (induction k arbitrary: a)
  case 0
  then show ?case by simp
next
  case (Suc k)
  then show ?case
    by (auto simp: bind_err_Inl index0_def split: list.splits if_splits)
qed

lemma flatten_Inl:
  "flatten f = Inl e \<Longrightarrow> e = RadioError ''Can't make map from this'' \<or> e = IndexError"
  by (auto simp: flatten_def Let_def bind_err_Inl first_plane_def
      dest!: item_Inl index0s_Inl split: if_splits)

lemma parse_line_Inl: "parse_line l = Inl e \<Longrightarrow> e = IndexError \<or> e = ValueError"
  by (auto simp: parse_line_def bind_err_Inl Let_def dest: item_Inl split: option.splits)

lemma scan_history_Inl:
  "scan_history ls bm = Inl e \<Longrightarrow> e = IndexError \<or> e = ValueError"
proof (induction ls arbitrary: bm)
  case Nil
  then show ?case by simp
next
  case (Cons l ls)
  then show ?case
    by (auto simp: bind_err_Inl dest: parse_line_Inl split: if_splits)
qed

subsection \<open>The scan of the history\<close>

text \<open>Only the lines with the marker count.\<close>

lemma scan_history_filter:
  "scan_history ls bm = scan_history (filter (contains ''CLEAN BMAJ'') ls) bm"
proof (induction ls arbitrary: bm)
  case Nil
  then show ?case by simp
next
  case (Cons l ls)
  show ?case
  proof (cases "contains ''CLEAN BMAJ'' l")
    case True
    then show ?thesis
      using Cons.IH by (cases "parse_line l") (auto simp: bind_err_def)
  next
    case False
    then show ?thesis using Cons.IH by simp
  qed
qed

lemma scan_history_last:
  "ms \<noteq> [] \<Longrightarrow> list_all (contains ''CLEAN BMAJ'') ms \<Longrightarrow> scan_history ms bm = Inr r \<Longrightarrow>
     \<exists>x y. parse_line (last ms) = Inr (x, y) \<and> r = (PFloat x, PFloat y)"
proof (induction ms arbitrary: bm)
  case Nil
  then show ?case by simp
next
  case (Cons l ms)
  from Cons.prems obtain x y where pl: "parse_line l = Inr (x, y)"
    and rest: "scan_history ms (PFloat x, PFloat y) = Inr r"
    by (auto simp: bind_err_Inr)
  show ?case
  proof (cases "ms = []")
    case True
    with pl rest show ?thesis by simp
  next
    case False
    with Cons.IH[OF False _ rest] Cons.prems(2) show ?thesis by simp
  qed
qed

lemma scan_history_no_match:
  "filter (contains ''CLEAN BMAJ'') ls = [] \<Longrightarrow> scan_history ls bm = Inr bm"
  using scan_history_filter[of ls bm] by simp

lemma scan_history_match:
  assumes "filter (contains ''CLEAN BMAJ'') ls \<noteq> []" and "scan_history ls bm = Inr r"
  shows "\<exists>x y. parse_line (last (filter (contains ''CLEAN BMAJ'') ls)) = Inr (x, y) \<and>
               r = (PFloat x, PFloat y)"
proof -
  let ?ms = "filter (contains ''CLEAN BMAJ'') ls"
  have "scan_history ?ms bm = Inr r"
    using assms(2) scan_history_filter[of ls bm] by simp
  moreover have "list_all (contains ''CLEAN BMAJ'') ?ms"
    by (simp add: list_all_iff)
  ultimately show ?thesis
    using assms(1) scan_history_last by blast
qed

subsection \<open>The resolution of the beam, case by case\<close>

lemma resolve_beam_direct:
  "get h ''BMAJ'' \<noteq> PNone \<Longrightarrow> resolve_beam h = Inr (get h ''BMAJ'', get h ''BMIN'')"
  by (simp add: resolve_beam_def bind_err_def Let_def)

lemma resolve_beam_resol:
  "get h ''BMAJ'' = PNone \<Longrightarrow> get h ''RESOL1'' \<noteq> PNone \<Longrightarrow>
     resolve_beam h = Inr (get h ''RESOL1'', get h ''RESOL2'')"
  by (simp add: resolve_beam_def bind_err_def Let_def)

lemma resolve_beam_no_history:
  "get h ''BMAJ'' = PNone \<Longrightarrow> get h ''RESOL1'' = PNone \<Longrightarrow> history h = None \<Longrightarrow>
     resolve_beam h = Inl (RadioError ''No beam information found'')"
  by (simp add: resolve_beam_def bind_err_def Let_def)

lemma resolve_beam_history:
  "get h ''BMAJ'' = PNone \<Longrightarrow> get h ''RESOL1'' = PNone \<Longrightarrow> history h = Some ls \<Longrightarrow>
     resolve_beam h =
       bind_err (scan_history ls (PNone, get h ''RESOL2''))
         (\<lambda>bm. if fst bm = PNone then Inl (RadioError ''No beam information found'')
                else Inr bm)"
  by (simp add: resolve_beam_def Let_def)

lemma resolve_beam_no_beam:
  "resolve_beam h = Inl (RadioError ''No beam information found'') \<longleftrightarrow>
     get h ''BMAJ'' = PNone \<and> get h ''RESOL1'' = PNone \<and>
     (case history h of None \<Rightarrow> True
      | Some ls \<Rightarrow> filter (contains ''CLEAN BMAJ'') ls = [])"
proof (cases "get h ''BMAJ'' = PNone \<and> get h ''RESOL1'' = PNone")
  case False
  show ?thesis
  proof (cases "get h ''BMAJ'' = PNone")
    case True
    with False have "get h ''RESOL1'' \<noteq> PNone" by simp
    with True show ?thesis by (simp add: resolve_beam_resol)
  next
    case False
    then show ?thesis by (simp add: resolve_beam_direct)
  qed
next
  case True
  show ?thesis
  proof (cases "history h")
    case None
    with True show ?thesis by (simp add: resolve_beam_no_history)
  next
    case (Some ls)
    show ?thesis
    proof (cases "filter (contains ''CLEAN BMAJ'') ls = []")
      case True
      with \<open>get h ''BMAJ'' = PNone \<and> get h ''RESOL1'' = PNone\<close> Some show ?thesis
        by (simp add: resolve_beam_history scan_history_no_match bind_err_def)
    next
      case False
      have "resolve_beam h \<noteq> Inl (RadioError ''No beam information found'')"
      proof (cases "scan_history ls (PNone, get h ''RESOL2'')")
        case (Inl e)
        then have "resolve_beam h = Inl e"
          using True Some by (simp add: resolve_beam_history bind_err_def)
        with scan_history_Inl[OF Inl] show ?thesis by auto
      next
        case (Inr r)
        from scan_history_match[OF False Inr] obtain x y where "r = (PFloat x, PFloat y)"
          by blast
        with Inr True Some show ?thesis
          by (simp add: resolve_beam_history bind_err_def)
      qed
      with False True Some show ?thesis by simp
    qed
  qed
qed

subsection \<open>The constructor of radiomap, step by step\<close>

lemma radiomap_init_Inr:
  assumes "radiomap_init f = Inr rm"
  shows "\<exists>b1 b2 c1 c2 fh d.
           resolve_beam (hdr f) = Inr (b1, b2) \<and>
           item (cdelt (wcs_of (hdr f))) 0 = Inr c1 \<and>
           item (cdelt (wcs_of (hdr f))) 1 = Inr c2 \<and>
           check_square (- c1) c2 = Inr () \<and>
           idiv b1 (- c1) = Inr (bmaj rm) \<and>
           idiv b2 c2 = Inr (bmin rm) \<and>
           flatten f = Inr (fh, d) \<and>
           area rm = beam_area (bmaj rm) (bmin rm) \<and> fhead rm = fh \<and> rm_d rm = d"
  using assms
  by (auto simp: radiomap_init_def Let_def bind_err_Inr split: prod.splits)

lemma radiomap_init_no_beam:
  "radiomap_init f = Inl (RadioError ''No beam information found'') \<longleftrightarrow>
     resolve_beam (hdr f) = Inl (RadioError ''No beam information found'')"
  by (auto simp: radiomap_init_def Let_def bind_err_Inl split: prod.splits
      dest!: item_Inl idiv_Inl check_square_Inl flatten_Inl)

lemma elliptical_image_init:
  "radiomap_init elliptical_image =
     Inr \<lparr>rm_f = elliptical_image, prhd = hdr elliptical_image, units = PStr ''JY/BEAM'',
          bmaj = 1, bmin = 1, frq = PInt 0, area = beam_area 1 1,
          fhead = hdr elliptical_image, rm_d = data elliptical_image\<rparr>"
  by (simp add: init_defs elliptical_image_def)

subsection \<open>The check of pixel shape against beam shape\<close>

text \<open>
  C1. The claim is that the constructor raises \<^verbatim>\<open>RadioError\<close> when the pixel scales
  differ by more than 0.0001 in relative terms and the beam axes do too, as for
  \<open>cd1 = 1\<close>, \<open>cd2 = 2\<close>, \<open>bmaj = 1\<close>, \<open>bmin = 2\<close>. On this image the constructor
  returns a map instead: \<open>(cd1 - cd2) / cd1 = - 1\<close> is not above the threshold 1.0001 of
  line 106, so nothing is raised, and the beam is 1 by 1 pixels. Where the quotient is above
  the threshold, as for \<open>cd1 = 1\<close>, \<open>cd2 = - 2\<close>, the check raises \<^verbatim>\<open>NameError\<close>.
\<close>

theorem elliptical_beam_accepted:
  "get (hdr elliptical_image) ''BMAJ'' = PFloat 1 \<and>
   get (hdr elliptical_image) ''BMIN'' = PFloat 2 \<and>
   cdelt (wcs_of (hdr elliptical_image)) = [- 1, 2] \<and>
   check_square 1 2 = Inr () \<and>
   check_square 1 (- 2) = Inl NameError \<and>
   radiomap_init elliptical_image =
     Inr \<lparr>rm_f = elliptical_image, prhd = hdr elliptical_image, units = PStr ''JY/BEAM'',
          bmaj = 1, bmin = 1, frq = PInt 0, area = beam_area 1 1,
          fhead = hdr elliptical_image, rm_d = data elliptical_image\<rparr>"
  by (simp add: elliptical_image_init check_square_cases)
     (simp add: elliptical_image_def example_image_def example_wcs_def get_def)

subsection \<open>Both beam axes, or no map\<close>

text \<open>
  C2, as claimed: for every header either both beam axes are resolved or the constructor
  raises \<^verbatim>\<open>RadioError('No beam information found')\<close>, and beam resolution fails in no
  other way. The header with \<^verbatim>\<open>BMAJ\<close> and without \<^verbatim>\<open>BMIN\<close> refutes it: the
  resolution ends with \<open>bmin\<close> unresolved and without an error, and the constructor then
  raises \<^verbatim>\<open>TypeError\<close> at line 110. So does the history line with the marker and four
  tokens: the resolution raises \<^verbatim>\<open>IndexError\<close>.
\<close>

theorem bmaj_only_not_radio_error:
  "resolve_beam (hdr bmaj_only_image) = Inr (PFloat 1, PNone) \<and>
   radiomap_init bmaj_only_image = Inl TypeError \<and>
   resolve_beam (hdr short_line_image) = Inl IndexError \<and>
   radiomap_init short_line_image = Inl IndexError"
  by (simp add: init_defs bmaj_only_image_def short_line_image_def parse_defs)

text \<open>
  C2, amended. The constructor raises \<^verbatim>\<open>RadioError('No beam information found')\<close>
  exactly when the cards \<^verbatim>\<open>BMAJ\<close> and \<^verbatim>\<open>RESOL1\<close> are missing and the history is
  missing or has no line with the marker \<^verbatim>\<open>CLEAN BMAJ\<close>. Whenever it returns a map,
  both beam axes were resolved.
\<close>

theorem beam_resolved_or_no_beam:
  "(radiomap_init f = Inl (RadioError ''No beam information found'') \<longleftrightarrow>
      get (hdr f) ''BMAJ'' = PNone \<and> get (hdr f) ''RESOL1'' = PNone \<and>
      (case history (hdr f) of None \<Rightarrow> True
       | Some ls \<Rightarrow> filter (contains ''CLEAN BMAJ'') ls = [])) \<and>
   (\<forall>rm. radiomap_init f = Inr rm \<longrightarrow>
      (\<exists>b1 b2. resolve_beam (hdr f) = Inr (b1, b2) \<and> b1 \<noteq> PNone \<and> b2 \<noteq> PNone))"
proof (intro conjI allI impI)
  show "radiomap_init f = Inl (RadioError ''No beam information found'') \<longleftrightarrow>
      get (hdr f) ''BMAJ'' = PNone \<and> get (hdr f) ''RESOL1'' = PNone \<and>
      (case history (hdr f) of None \<Rightarrow> True
       | Some ls \<Rightarrow> filter (contains ''CLEAN BMAJ'') ls = [])"
    by (simp only: radiomap_init_no_beam resolve_beam_no_beam)
next
  fix rm
  assume "radiomap_init f = Inr rm"
  from radiomap_init_Inr[OF this] obtain b1 b2 c1 c2 where
    "resolve_beam (hdr f) = Inr (b1, b2)" "idiv b1 (- c1) = Inr (bmaj rm)"
    "idiv b2 c2 = Inr (bmin rm)"
    by blast
  then show "\<exists>b1 b2. resolve_beam (hdr f) = Inr (b1, b2) \<and> b1 \<noteq> PNone \<and> b2 \<noteq> PNone"
    using idiv_Inr by blast
qed

theorem beam_resolved_or_no_beam_witness:
  "radiomap_init no_beam_image = Inl (RadioError ''No beam information found'') \<and>
   (\<exists>rm b1 b2. radiomap_init elliptical_image = Inr rm \<and>
      resolve_beam (hdr elliptical_image) = Inr (b1, b2) \<and> b1 \<noteq> PNone \<and> b2 \<noteq> PNone)"
proof -
  have "get (hdr no_beam_image) ''BMAJ'' = PNone \<and> get (hdr no_beam_image) ''RESOL1'' = PNone \<and>
      (case history (hdr no_beam_image) of None \<Rightarrow> True
       | Some ls \<Rightarrow> filter (contains ''CLEAN BMAJ'') ls = [])"
    by (simp add: no_beam_image_def example_image_def get_def)
  then have "radiomap_init no_beam_image = Inl (RadioError ''No beam information found'')"
    using beam_resolved_or_no_beam[of no_beam_image] by blast
  then show ?thesis
    using beam_resolved_or_no_beam[of elliptical_image] elliptical_image_init by blast
qed

subsection \<open>The order of the beam sources\<close>

text \<open>
  C3. When the card \<^verbatim>\<open>BMAJ\<close> is present the beam axes are the cards \<^verbatim>\<open>BMAJ\<close> and
  \<^verbatim>\<open>BMIN\<close>, whatever \<^verbatim>\<open>RESOL1\<close>, \<^verbatim>\<open>RESOL2\<close> and the history hold. The cards
  \<^verbatim>\<open>RESOL1\<close> and \<^verbatim>\<open>RESOL2\<close> are used only when \<^verbatim>\<open>BMAJ\<close> is absent. The history
  has no influence unless both \<^verbatim>\<open>BMAJ\<close> and \<^verbatim>\<open>RESOL1\<close> are absent, and then the scan
  of the history decides.
\<close>

theorem beam_resolution_order:
  "(get h ''BMAJ'' \<noteq> PNone \<longrightarrow>
      resolve_beam h = Inr (get h ''BMAJ'', get h ''BMIN'')) \<and>
   (get h ''BMAJ'' = PNone \<and> get h ''RESOL1'' \<noteq> PNone \<longrightarrow>
      resolve_beam h = Inr (get h ''RESOL1'', get h ''RESOL2'')) \<and>
   (get h ''BMAJ'' \<noteq> PNone \<or> get h ''RESOL1'' \<noteq> PNone \<longrightarrow>
      resolve_beam (h\<lparr>history := hist\<rparr>) = resolve_beam h) \<and>
   (get h ''BMAJ'' = PNone \<and> get h ''RESOL1'' = PNone \<and> history h = Some ls \<longrightarrow>
      resolve_beam h =
        bind_err (scan_history ls (PNone, get h ''RESOL2''))
          (\<lambda>bm. if fst bm = PNone then Inl (RadioError ''No beam information found'')
                 else Inr bm))"
proof (intro conjI impI)
  assume "get h ''BMAJ'' \<noteq> PNone \<or> get h ''RESOL1'' \<noteq> PNone"
  then show "resolve_beam (h\<lparr>history := hist\<rparr>) = resolve_beam h"
    by (auto simp: resolve_beam_def get_def Let_def)
qed (simp_all add: resolve_beam_direct resolve_beam_resol resolve_beam_history)

theorem beam_resolution_order_witness:
  "resolve_beam (hdr all_keys_image) = Inr (PFloat 4, PFloat 3) \<and>
   resolve_beam (hdr resol_image) = Inr (PFloat 8, PFloat 7) \<and>
   resolve_beam ((hdr all_keys_image)\<lparr>history := None\<rparr>) = Inr (PFloat 4, PFloat 3) \<and>
   resolve_beam (hdr history_image) = Inr (PFloat 0.005, PFloat 0.003)"
proof -
  have a: "get (hdr all_keys_image) ''BMAJ'' = PFloat 4"
    "get (hdr all_keys_image) ''BMIN'' = PFloat 3"
    by (simp_all add: all_keys_image_def example_image_def get_def)
  have r: "get (hdr resol_image) ''BMAJ'' = PNone" "get (hdr resol_image) ''RESOL1'' = PFloat 8"
    "get (hdr resol_image) ''RESOL2'' = PFloat 7"
    by (simp_all add: resol_image_def example_image_def get_def)
  have h: "get (hdr history_image) ''BMAJ'' = PNone" "get (hdr history_image) ''RESOL1'' = PNone"
    "get (hdr history_image) ''RESOL2'' = PNone"
    "history (hdr history_image) =
       Some [''AIPS IMAGR CELLSIZE 0.001'', ''AIPS CLEAN BMAJ 0.005 BMIN 0.003 BPA 12.0'']"
    by (simp_all add: history_image_def example_image_def get_def)
  have s: "scan_history [''AIPS IMAGR CELLSIZE 0.001'', ''AIPS CLEAN BMAJ 0.005 BMIN 0.003 BPA 12.0'']
             (PNone, PNone) = Inr (PFloat 0.005, PFloat 0.003)"
    by (simp add: parse_defs item_def bind_err_def)
  have "resolve_beam (hdr all_keys_image) = Inr (PFloat 4, PFloat 3)"
    and "resolve_beam ((hdr all_keys_image)\<lparr>history := None\<rparr>) = Inr (PFloat 4, PFloat 3)"
    using beam_resolution_order[of "hdr all_keys_image" None] by (simp_all add: a)
  moreover have "resolve_beam (hdr resol_image) = Inr (PFloat 8, PFloat 7)"
    using beam_resolution_order[of "hdr resol_image"] by (simp add: r)
  moreover have "resolve_beam (hdr history_image) = Inr (PFloat 0.005, PFloat 0.003)"
    using beam_resolution_order[of "hdr history_image" _
        "[''AIPS IMAGR CELLSIZE 0.001'', ''AIPS CLEAN BMAJ 0.005 BMIN 0.003 BPA 12.0'']"]
    by (simp only: h s) (simp add: bind_err_def)
  ultimately show ?thesis by simp
qed

subsection \<open>The tokens of a history line\<close>

text \<open>
  C4. When the resolution reaches the history and one line contains \<^verbatim>\<open>CLEAN BMAJ\<close>, that
  line is split on whitespace, its 4th token (index 3) is converted to \<open>bmaj\<close> and its 6th
  token (index 5) to \<open>bmin\<close>. A header without beam cards whose history line has the
  tokens 0.005 and 0.003 in these places resolves to \<open>bmaj = 0.005\<close>, \<open>bmin = 0.003\<close>.
\<close>

theorem history_line_tokens:
  assumes "get h ''BMAJ'' = PNone" and "get h ''RESOL1'' = PNone"
    and "history h = Some ls"
    and "filter (contains ''CLEAN BMAJ'') ls = [line]"
    and "5 < length (split line)"
    and "py_float (split line ! 3) = Some x"
    and "py_float (split line ! 5) = Some y"
  shows "resolve_beam h = Inr (PFloat x, PFloat y)"
proof -
  have "parse_line line = Inr (x, y)"
    using assms(5-7) by (simp add: parse_line_def item_def bind_err_def)
  moreover have "contains ''CLEAN BMAJ'' line"
  proof -
    have "line \<in> set (filter (contains ''CLEAN BMAJ'') ls)"
      using assms(4) by simp
    then show ?thesis by simp
  qed
  ultimately have "scan_history [line] (PNone, get h ''RESOL2'') = Inr (PFloat x, PFloat y)"
    by (simp add: bind_err_def)
  then have "scan_history ls (PNone, get h ''RESOL2'') = Inr (PFloat x, PFloat y)"
    using scan_history_filter[of ls] assms(4) by simp
  then show ?thesis
    using assms(1-3) by (simp add: resolve_beam_history bind_err_def)
qed

theorem history_line_tokens_witness:
  "split ''AIPS CLEAN BMAJ 0.005 BMIN 0.003 BPA 12.0'' =
     [''AIPS'', ''CLEAN'', ''BMAJ'', ''0.005'', ''BMIN'', ''0.003'', ''BPA'', ''12.0''] \<and>
   resolve_beam (hdr history_image) = Inr (PFloat 0.005, PFloat 0.003)"
proof -
  let ?l = "''AIPS CLEAN BMAJ 0.005 BMIN 0.003 BPA 12.0''"
  have sp: "split ?l = [''AIPS'', ''CLEAN'', ''BMAJ'', ''0.005'', ''BMIN'', ''0.003'', ''BPA'', ''12.0'']"
    by (simp add: split_def is_space_def)
  have h: "get (hdr history_image) ''BMAJ'' = PNone" "get (hdr history_image) ''RESOL1'' = PNone"
    "history (hdr history_image) = Some [''AIPS IMAGR CELLSIZE 0.001'', ?l]"
    by (simp_all add: history_image_def example_image_def get_def)
  have f: "filter (contains ''CLEAN BMAJ'') [''AIPS IMAGR CELLSIZE 0.001'', ?l] = [?l]"
    by simp
  have p: "py_float (split ?l ! 3) = Some 0.005" "py_float (split ?l ! 5) = Some 0.003"
    unfolding sp by (simp_all add: parse_defs)
  have "5 < length (split ?l)" unfolding sp by simp
  from history_line_tokens[OF h f this p] sp show ?thesis by simp
qed

subsection \<open>Several history lines with the marker\<close>

text \<open>
  C10. When more than one history line contains \<^verbatim>\<open>CLEAN BMAJ\<close>, the scan goes on after
  the first of them: in the map that the constructor returns, the beam is the one parsed
  from the last such line, divided by the pixel scales (which astropy keeps non-zero).
\<close>

theorem last_history_line_wins:
  assumes "radiomap_init f = Inr rm"
    and "get (hdr f) ''BMAJ'' = PNone" and "get (hdr f) ''RESOL1'' = PNone"
    and "history (hdr f) = Some ls"
    and "1 < length (filter (contains ''CLEAN BMAJ'') ls)"
    and "cdelt (wcs_of (hdr f)) = c1 # c2 # cs" and "c1 \<noteq> 0" and "c2 \<noteq> 0"
  shows "\<exists>x y. parse_line (last (filter (contains ''CLEAN BMAJ'') ls)) = Inr (x, y) \<and>
           resolve_beam (hdr f) = Inr (PFloat x, PFloat y) \<and>
           bmaj rm = x / (- c1) \<and> bmin rm = y / c2"
proof -
  from radiomap_init_Inr[OF assms(1)] obtain b1 b2 d1 d2 where
    rb: "resolve_beam (hdr f) = Inr (b1, b2)"
    and it: "item (cdelt (wcs_of (hdr f))) 0 = Inr d1" "item (cdelt (wcs_of (hdr f))) 1 = Inr d2"
    and dv: "idiv b1 (- d1) = Inr (bmaj rm)" "idiv b2 d2 = Inr (bmin rm)"
    by blast
  from it assms(6) have d: "d1 = c1" "d2 = c2" by (simp_all add: item_def)
  from rb assms(2-4) obtain r where
    sc: "scan_history ls (PNone, get (hdr f) ''RESOL2'') = Inr r" and r: "r = (b1, b2)"
    by (auto simp: resolve_beam_history bind_err_Inr split: if_splits)
  from assms(5) have ne: "filter (contains ''CLEAN BMAJ'') ls \<noteq> []" by auto
  from scan_history_match[OF ne sc] obtain x y where
    pl: "parse_line (last (filter (contains ''CLEAN BMAJ'') ls)) = Inr (x, y)"
    and xy: "r = (PFloat x, PFloat y)"
    by blast
  from xy r dv d have "bmaj rm = x / (- c1)" "bmin rm = y / c2" by auto
  with pl rb r xy show ?thesis by auto
qed

lemma two_clean_image_init:
  "radiomap_init two_clean_image =
     Inr \<lparr>rm_f = two_clean_image, prhd = hdr two_clean_image, units = PStr ''JY/BEAM'',
          bmaj = 2, bmin = 1, frq = PInt 0, area = beam_area 2 1,
          fhead = hdr two_clean_image, rm_d = data two_clean_image\<rparr>"
  by (simp add: init_defs two_clean_image_def parse_defs)

theorem last_history_line_wins_witness:
  "\<exists>rm. radiomap_init two_clean_image = Inr rm \<and>
     parse_line ''AIPS CLEAN BMAJ 0.005 BMIN 0.003 BPA 12.0'' = Inr (0.005, 0.003) \<and>
     parse_line ''AIPS CLEAN BMAJ 0.002 BMIN 0.001 BPA 0.0'' = Inr (0.002, 0.001) \<and>
     resolve_beam (hdr two_clean_image) = Inr (PFloat 0.002, PFloat 0.001) \<and>
     bmaj rm = 0.002 / 0.001 \<and> bmin rm = 0.001 / 0.001"
proof -
  let ?ls = "[''AIPS CLEAN BMAJ 0.005 BMIN 0.003 BPA 12.0'', ''AIPS IMAGR CELLSIZE 0.001'',
              ''AIPS CLEAN BMAJ 0.002 BMIN 0.001 BPA 0.0'']"
  have h: "get (hdr two_clean_image) ''BMAJ'' = PNone"
    "get (hdr two_clean_image) ''RESOL1'' = PNone"
    "history (hdr two_clean_image) = Some ?ls"
    by (simp_all add: two_clean_image_def example_image_def get_def)
  have n: "1 < length (filter (contains ''CLEAN BMAJ'') ?ls)"
    and l: "last (filter (contains ''CLEAN BMAJ'') ?ls) = ''AIPS CLEAN BMAJ 0.002 BMIN 0.001 BPA 0.0''"
    by simp_all
  have c: "cdelt (wcs_of (hdr two_clean_image)) = [- 0.001, 0.001]"
    by (simp add: two_clean_image_def example_image_def example_wcs_def)
  have p: "parse_line ''AIPS CLEAN BMAJ 0.005 BMIN 0.003 BPA 12.0'' = Inr (0.005, 0.003)"
    "parse_line ''AIPS CLEAN BMAJ 0.002 BMIN 0.001 BPA 0.0'' = Inr (0.002, 0.001)"
    by (simp_all add: parse_defs item_def bind_err_def)
  from last_history_line_wins[OF two_clean_image_init h n c] obtain x y where
    "parse_line (last (filter (contains ''CLEAN BMAJ'') ?ls)) = Inr (x, y)"
    "resolve_beam (hdr two_clean_image) = Inr (PFloat x, PFloat y)"
    by auto
  with l p(2) have "resolve_beam (hdr two_clean_image) = Inr (PFloat 0.002, PFloat 0.001)"
    by simp
  with p show ?thesis
    by (simp add: two_clean_image_init)
qed

subsection \<open>The beam area\<close>

text \<open>Bounds on the logarithm and the arctangent, from the sign of a derivative.\<close>

lemma ln_upper_cubic:
  fixes x :: real
  assumes "0 \<le> x"
  shows "ln (1 + x) \<le> x - x\<^sup>2 / 2 + x ^ 3 / 3"
proof -
  define g :: "real \<Rightarrow> real" where "g t = t - t\<^sup>2 / 2 + t ^ 3 / 3 - ln (1 + t)" for t
  have "g 0 \<le> g x"
  proof (rule DERIV_nonneg_imp_nondecreasing[OF assms])
    fix t :: real
    assume t: "0 \<le> t" "t \<le> x"
    have d: "(g has_real_derivative (1 - t + t\<^sup>2 - 1 / (1 + t))) (at t)"
      unfolding g_def using t
      by (auto intro!: derivative_eq_intros simp: field_simps power2_eq_square)
    have "1 - t + t\<^sup>2 - 1 / (1 + t) = t ^ 3 / (1 + t)"
      using t by (simp add: field_simps power2_eq_square power3_eq_cube)
    also have "\<dots> \<ge> 0" using t by simp
    finally show "\<exists>y. (g has_real_derivative y) (at t) \<and> 0 \<le> y"
      using d by blast
  qed
  then show ?thesis by (simp add: g_def)
qed

lemma ln_lower_quartic:
  fixes x :: real
  assumes "0 \<le> x"
  shows "x - x\<^sup>2 / 2 + x ^ 3 / 3 - x ^ 4 / 4 \<le> ln (1 + x)"
proof -
  define g :: "real \<Rightarrow> real" where
    "g t = ln (1 + t) - (t - t\<^sup>2 / 2 + t ^ 3 / 3 - t ^ 4 / 4)" for t
  have "g 0 \<le> g x"
  proof (rule DERIV_nonneg_imp_nondecreasing[OF assms])
    fix t :: real
    assume t: "0 \<le> t" "t \<le> x"
    have d: "(g has_real_derivative (1 / (1 + t) - (1 - t + t\<^sup>2 - t ^ 3))) (at t)"
      unfolding g_def using t
      by (auto intro!: derivative_eq_intros simp: field_simps power2_eq_square power3_eq_cube)
    have "1 / (1 + t) - (1 - t + t\<^sup>2 - t ^ 3) = t ^ 4 / (1 + t)"
      using t by (simp add: field_simps power2_eq_square power3_eq_cube power4_eq_xxxx)
    also have "\<dots> \<ge> 0" using t by simp
    finally show "\<exists>y. (g has_real_derivative y) (at t) \<and> 0 \<le> y"
      using d by blast
  qed
  then show ?thesis by (simp add: g_def)
qed

lemma arctan_lower_cubic:
  fixes x :: real
  assumes "0 \<le> x"
  shows "x - x ^ 3 / 3 \<le> arctan x"
proof -
  define g :: "real \<Rightarrow> real" where "g t = arctan t - (t - t ^ 3 / 3)" for t
  have "g 0 \<le> g x"
  proof (rule DERIV_nonneg_imp_nondecreasing[OF assms])
    fix t :: real
    assume t: "0 \<le> t" "t \<le> x"
    have d: "(g has_real_derivative (1 / (1 + t\<^sup>2) - (1 - t\<^sup>2))) (at t)"
      unfolding g_def
      by (auto intro!: derivative_eq_intros simp: field_simps power2_eq_square power3_eq_cube)
    have "1 + t\<^sup>2 \<noteq> 0" by (metis add.commute power2_eq_square sum_power2_eq_zero_iff one_power2 zero_neq_one)
    then have "1 / (1 + t\<^sup>2) - (1 - t\<^sup>2) = t ^ 4 / (1 + t\<^sup>2)"
      by (simp add: field_simps power2_eq_square power4_eq_xxxx)
    also have "\<dots> \<ge> 0" by simp
    finally show "\<exists>y. (g has_real_derivative y) (at t) \<and> 0 \<le> y"
      using d by blast
  qed
  then show ?thesis by (simp add: g_def)
qed

lemma arctan_upper_quintic:
  fixes x :: real
  assumes "0 \<le> x"
  shows "arctan x \<le> x - x ^ 3 / 3 + x ^ 5 / 5"
proof -
  define g :: "real \<Rightarrow> real" where "g t = t - t ^ 3 / 3 + t ^ 5 / 5 - arctan t" for t
  have "g 0 \<le> g x"
  proof (rule DERIV_nonneg_imp_nondecreasing[OF assms])
    fix t :: real
    assume t: "0 \<le> t" "t \<le> x"
    have d: "(g has_real_derivative (1 - t\<^sup>2 + t ^ 4 - 1 / (1 + t\<^sup>2))) (at t)"
      unfolding g_def
      by (auto intro!: derivative_eq_intros simp: field_simps power2_eq_square power3_eq_cube)
    have "1 + t\<^sup>2 \<noteq> 0" by (metis add.commute power2_eq_square sum_power2_eq_zero_iff one_power2 zero_neq_one)
    then have "1 - t\<^sup>2 + t ^ 4 - 1 / (1 + t\<^sup>2) = t ^ 6 / (1 + t\<^sup>2)"
      by (simp add: field_simps power2_eq_square power4_eq_xxxx eval_nat_numeral)
    also have "\<dots> \<ge> 0" by simp
    finally show "\<exists>y. (g has_real_derivative y) (at t) \<and> 0 \<le> y"
      using d by blast
  qed
  then show ?thesis by (simp add: g_def)
qed

lemma pi_bounds: "3.14 < pi" "pi < 3.142"
proof -
  have a5l: "1 / 5 - (1 / 5) ^ 3 / 3 \<le> arctan (1 / 5)"
    by (rule arctan_lower_cubic) simp
  have a5u: "arctan (1 / 5) \<le> 1 / 5 - (1 / 5) ^ 3 / 3 + (1 / 5) ^ 5 / 5"
    by (rule arctan_upper_quintic) simp
  have a239l: "1 / 239 - (1 / 239) ^ 3 / 3 \<le> arctan (1 / 239)"
    by (rule arctan_lower_cubic) simp
  have a239u: "arctan (1 / 239) \<le> 1 / 239"
    using arctan_upper_quintic[of "1 / 239"] by (simp add: field_simps)
  have m: "pi = 4 * (4 * arctan (1 / 5) - arctan (1 / 239))"
    using machin by simp
  show "3.14 < pi" using a5l a239u unfolding m by (simp add: field_simps)
  show "pi < 3.142" using a5u a239l unfolding m by (simp add: field_simps)
qed

lemma ln2_bounds: "0.6926 < ln (2::real)" "ln (2::real) < 0.6956"
proof -
  have e: "ln (2::real) = 3 * ln (1 + 1 / 4) + ln (1 + 3 / 125)"
  proof -
    have "(2::real) = (1 + 1 / 4) ^ 3 * (1 + 3 / 125)" by (simp add: power3_eq_cube)
    then have "ln (2::real) = ln ((1 + 1 / 4) ^ 3 * (1 + 3 / 125))" by simp
    also have "\<dots> = ln ((1 + 1 / 4 :: real) ^ 3) + ln (1 + 3 / 125 :: real)"
      by (rule ln_mult_pos) simp_all
    also have "ln ((1 + 1 / 4 :: real) ^ 3) = 3 * ln (1 + 1 / 4 :: real)"
      by (simp add: ln_realpow)
    finally show ?thesis .
  qed
  have l1: "(1 / 4 :: real) - (1 / 4)\<^sup>2 / 2 + (1 / 4) ^ 3 / 3 - (1 / 4) ^ 4 / 4 \<le> ln (1 + 1 / 4)"
    by (rule ln_lower_quartic) simp
  have u1: "ln (1 + 1 / 4 :: real) \<le> 1 / 4 - (1 / 4)\<^sup>2 / 2 + (1 / 4) ^ 3 / 3"
    by (rule ln_upper_cubic) simp
  have l2: "(3 / 125 :: real) - (3 / 125)\<^sup>2 / 2 + (3 / 125) ^ 3 / 3 - (3 / 125) ^ 4 / 4 \<le> ln (1 + 3 / 125)"
    by (rule ln_lower_quartic) simp
  have u2: "ln (1 + 3 / 125 :: real) \<le> 3 / 125 - (3 / 125)\<^sup>2 / 2 + (3 / 125) ^ 3 / 3"
    by (rule ln_upper_cubic) simp
  show "0.6926 < ln (2::real)" unfolding e using l1 l2 by (simp add: field_simps)
  show "ln (2::real) < 0.6956" unfolding e using u1 u2 by (simp add: field_simps)
qed

lemma gfactor_square: "gfactor * gfactor = 8 * ln 2"
proof -
  have "0 \<le> 2 * ln (2::real)" by simp
  then have "sqrt (2 * ln 2) * sqrt (2 * ln 2) = 2 * ln (2::real)"
    by (rule real_sqrt_mult_self[simplified] | simp)+
  then show ?thesis by (simp add: gfactor_def)
qed

lemma beam_area_closed_form:
  "beam_area bmaj_px bmin_px = 2 * pi * bmaj_px * bmin_px / (2 * sqrt (2 * ln 2))\<^sup>2"
  by (simp add: beam_area_def gfactor_def power2_eq_square)

lemma beam_area_4_2: "beam_area 4 2 = 2 * pi / ln 2"
proof -
  have "ln (2::real) \<noteq> 0" by simp
  then show ?thesis by (simp add: beam_area_def gfactor_square field_simps)
qed

lemma beam_area_4_2_bounds: "9 < beam_area 4 2" "beam_area 4 2 < 9.1"
proof -
  have p: "0 < ln (2::real)" by simp
  have "9 * ln (2::real) < 9 * 0.6956" using ln2_bounds(2) by simp
  also have "\<dots> < 2 * 3.14" by simp
  also have "\<dots> < 2 * pi" using pi_bounds(1) by simp
  finally show "9 < beam_area 4 2"
    using p by (simp add: beam_area_4_2 field_simps)
  have "2 * pi < 2 * 3.142" using pi_bounds(2) by simp
  also have "\<dots> < 9.1 * 0.6926" by simp
  also have "\<dots> < 9.1 * ln (2::real)" using ln2_bounds(1) by simp
  finally show "beam_area 4 2 < 9.1"
    using p by (simp add: beam_area_4_2 field_simps)
qed

text \<open>
  C5, as claimed: the beam area is \<open>2 * pi * bmaj * bmin / (g * g)\<close> with \<open>g = 2 * sqrt (2 * ln 2)\<close>, and for
  a beam of 4 by 2 pixels this value is approximately 10.666. The value is below 9.1, so it
  is more than 1.5 away from 10.666.
\<close>

theorem beam_area_not_10_666: "\<not> \<bar>beam_area 4 2 - 10.666\<bar> \<le> 1.5"
  using beam_area_4_2_bounds(2) by simp

text \<open>
  C5, amended. The beam area is \<open>2 * pi * bmaj * bmin / (g * g)\<close> with \<open>g = 2 * sqrt (2 * ln 2)\<close>, for any
  two axes and in every map that the constructor returns. For a beam of 4 by 2 pixels it is
  \<open>2 * pi / ln 2\<close>, which lies between 9 and 9.1.
\<close>

theorem beam_area_value:
  "beam_area bmaj_px bmin_px = 2 * pi * bmaj_px * bmin_px / (2 * sqrt (2 * ln 2))\<^sup>2 \<and>
   beam_area 4 2 = 2 * pi / ln 2 \<and> 9 < beam_area 4 2 \<and> beam_area 4 2 < 9.1 \<and>
   (\<forall>f rm. radiomap_init f = Inr rm \<longrightarrow> area rm = beam_area (bmaj rm) (bmin rm))"
  using beam_area_closed_form beam_area_4_2 beam_area_4_2_bounds radiomap_init_Inr
  by blast

lemma beam_4_2_image_init:
  "radiomap_init beam_4_2_image =
     Inr \<lparr>rm_f = beam_4_2_image, prhd = hdr beam_4_2_image, units = PStr ''JY/BEAM'',
          bmaj = 4, bmin = 2, frq = PInt 0, area = beam_area 4 2,
          fhead = hdr beam_4_2_image, rm_d = data beam_4_2_image\<rparr>"
  by (simp add: init_defs beam_4_2_image_def)

theorem beam_area_value_witness:
  "\<exists>rm. radiomap_init beam_4_2_image = Inr rm \<and> bmaj rm = 4 \<and> bmin rm = 2 \<and>
     area rm = 2 * pi / ln 2 \<and> 9 < area rm \<and> area rm < 9.1"
proof -
  from beam_4_2_image_init obtain rm where
    i: "radiomap_init beam_4_2_image = Inr rm" and b: "bmaj rm = 4" "bmin rm = 2"
    by simp
  from beam_area_value[of 4 2] i b
  have "area rm = 2 * pi / ln 2 \<and> 9 < area rm \<and> area rm < 9.1" by metis
  with i b show ?thesis by blast
qed

subsection \<open>flatten on images of at most two axes\<close>


text \<open>
  C6. \<^verbatim>\<open>flatten\<close> is the identity on an image whose \<^verbatim>\<open>NAXIS\<close> is 2: it returns the
  header and the data of its input, unchanged. On an image whose \<^verbatim>\<open>NAXIS\<close> is less
  than 2 it raises \<^verbatim>\<open>RadioError\<close>.
\<close>

theorem flatten_two_axes:
  "(naxis (hdr f) = 2 \<longrightarrow> flatten f = Inr (hdr f, data f)) \<and>
   (naxis (hdr f) < 2 \<longrightarrow> (\<exists>msg. flatten f = Inl (RadioError msg)))"
  by (simp add: flatten_def)

theorem flatten_two_axes_witness:
  "flatten elliptical_image = Inr (hdr elliptical_image, data elliptical_image) \<and>
   (\<exists>msg. flatten one_axis_image = Inl (RadioError msg))"
proof -
  have "naxis (hdr elliptical_image) = 2"
    by (simp add: elliptical_image_def example_image_def)
  moreover have "naxis (hdr one_axis_image) < 2"
    by (simp add: one_axis_image_def)
  ultimately show ?thesis
    using flatten_two_axes[of elliptical_image] flatten_two_axes[of one_axis_image]
    by blast
qed

subsection \<open>flatten on images of more than two axes\<close>

lemma index0s_shape:
  "index0s k a = Inr d \<Longrightarrow>
     buf d = buf a \<and> (\<exists>ns. shape a = ns @ shape d \<and> length ns = k \<and> list_all ((<) 0) ns)"
proof (induction k arbitrary: a)
  case 0
  then show ?case by simp
next
  case (Suc k)
  from Suc.prems obtain n ns where sh: "shape a = n # ns" and n: "0 < n"
    and rest: "index0s k (a\<lparr>shape := ns\<rparr>) = Inr d"
    by (auto simp: bind_err_def index0_def split: list.splits if_splits sum.splits)
  from Suc.IH[OF rest] obtain ms where "buf d = buf a" "ns = ms @ shape d" "length ms = k" "list_all ((<) 0) ms"
    by auto
  with sh n show ?case
    by (intro conjI exI[of _ "n # ms"]) auto
qed

lemma index0s_ok:
  "k \<le> length (shape a) \<Longrightarrow> list_all ((<) 0) (take k (shape a)) \<Longrightarrow>
     index0s k a = Inr (a\<lparr>shape := drop k (shape a)\<rparr>)"
proof (induction k arbitrary: a)
  case 0
  then show ?case by simp
next
  case (Suc k)
  then obtain n ns where sh: "shape a = n # ns" by (cases "shape a") auto
  with Suc.prems have n: "0 < n" and len: "k \<le> length ns" and pos: "list_all ((<) 0) (take k ns)"
    by auto
  have "index0s k (a\<lparr>shape := ns\<rparr>) = Inr (a\<lparr>shape := ns\<rparr>\<lparr>shape := drop k ns\<rparr>)"
    using Suc.IH[of "a\<lparr>shape := ns\<rparr>"] len pos by simp
  with sh n show ?case by (simp add: bind_err_def index0_def)
qed

lemma offset_zeros:
  "length ns = k \<Longrightarrow> offset (ns @ sh) (replicate k 0 @ idx) = offset sh idx"
  by (induction ns arbitrary: k) auto

lemma in_bounds_zeros:
  "length ns = k \<Longrightarrow> list_all ((<) 0) ns \<Longrightarrow>
     list_all2 (<) (replicate k 0 @ idx) (ns @ sh) = list_all2 (<) idx sh"
  by (induction ns arbitrary: k) auto

lemma getitem_index0s:
  assumes "index0s k a = Inr d"
  shows "getitem bs d idx = getitem bs a (replicate k 0 @ idx)"
proof -
  from index0s_shape[OF assms] obtain ns where
    "buf d = buf a" "shape a = ns @ shape d" "length ns = k" "list_all ((<) 0) ns"
    by auto
  then show ?thesis
    by (simp add: getitem_def offset_zeros in_bounds_zeros)
qed

lemma flatten_cube_Inr:
  assumes "2 < naxis (hdr f)" and "flatten f = Inr (h, d)"
  shows "naxis h = 2 \<and> index0s (nat (naxis (hdr f) - 2)) (data f) = Inr d"
proof -
  have cc: "naxis (copy_cards src ks h0) = naxis h0" for src ks h0
    by (induction ks arbitrary: h0) (simp_all add: Let_def)
  from assms show ?thesis
    by (auto simp: flatten_def Let_def bind_err_Inr first_plane_def cc to_header_def
        split: if_splits)
qed

text \<open>
  C7. For an image of \<open>N > 2\<close> axes, the data that \<^verbatim>\<open>flatten\<close> returns is the slice at
  index 0 of every axis beyond the first two and of full extent on the first two (the
  axes beyond the first two are the \<open>N - 2\<close> leading axes of the array): it is a view on
  the same buffer with the last two entries of the shape, its element \<open>[i, j]\<close> is the
  element \<open>[0, ..., 0, i, j]\<close> of the input, and the new header has two axes. This holds
  for every \<open>N\<close>; and \<^verbatim>\<open>flatten\<close> does return when the data has \<open>N\<close> axes, none of the
  leading \<open>N - 2\<close> is empty and the transform has at least two axes.
\<close>

theorem flatten_first_plane:
  assumes "2 < naxis (hdr f)"
  shows "(\<forall>h d. flatten f = Inr (h, d) \<longrightarrow>
            naxis h = 2 \<and> buf d = buf (data f) \<and>
            shape d = drop (nat (naxis (hdr f) - 2)) (shape (data f)) \<and>
            (\<forall>i j. getitem bs d [i, j] =
                    getitem bs (data f) (replicate (nat (naxis (hdr f) - 2)) 0 @ [i, j]))) \<and>
         (length (shape (data f)) = nat (naxis (hdr f)) \<and>
          list_all ((<) 0) (take (nat (naxis (hdr f) - 2)) (shape (data f))) \<and>
          2 \<le> length (crpix (wcs_of (hdr f))) \<and> 2 \<le> length (ctype (wcs_of (hdr f))) \<longrightarrow>
            (\<exists>h d. flatten f = Inr (h, d)))"
proof (intro conjI allI impI)
  fix h d
  assume fl: "flatten f = Inr (h, d)"
  from flatten_cube_Inr[OF assms fl]
  have n: "naxis h = 2" and ix: "index0s (nat (naxis (hdr f) - 2)) (data f) = Inr d"
    by simp_all
  from index0s_shape[OF ix] obtain ns where
    b: "buf d = buf (data f)" and sh: "shape (data f) = ns @ shape d"
    and len: "length ns = nat (naxis (hdr f) - 2)"
    by auto
  show "naxis h = 2" by (rule n)
  show "buf d = buf (data f)" by (rule b)
  show "shape d = drop (nat (naxis (hdr f) - 2)) (shape (data f))"
    using sh len by simp
  show "getitem bs d [i, j] =
          getitem bs (data f) (replicate (nat (naxis (hdr f) - 2)) 0 @ [i, j])" for i j
    by (rule getitem_index0s[OF ix])
next
  assume wf: "length (shape (data f)) = nat (naxis (hdr f)) \<and>
          list_all ((<) 0) (take (nat (naxis (hdr f) - 2)) (shape (data f))) \<and>
          2 \<le> length (crpix (wcs_of (hdr f))) \<and> 2 \<le> length (ctype (wcs_of (hdr f)))"
  with assms have "nat (naxis (hdr f) - 2) \<le> length (shape (data f))"
    and "\<not> length (shape (data f)) < nat (naxis (hdr f) - 2) + 2"
    by simp_all
  moreover from wf have "0 < length (crpix (wcs_of (hdr f)))" "1 < length (crpix (wcs_of (hdr f)))"
    "0 < length (ctype (wcs_of (hdr f)))" "1 < length (ctype (wcs_of (hdr f)))"
    by linarith+
  ultimately show "\<exists>h d. flatten f = Inr (h, d)"
    using wf assms
    by (simp add: flatten_def Let_def item_def bind_err_def first_plane_def index0s_ok)
qed

theorem flatten_first_plane_witness:
  "\<exists>h d. flatten cube_image = Inr (h, d) \<and> naxis h = 2 \<and> shape d = [2, 3] \<and>
     getitem cube_bufs d [1, 2] = getitem cube_bufs (data cube_image) [0, 0, 1, 2] \<and>
     getitem cube_bufs (data cube_image) [0, 0, 1, 2] = Inr 15 \<and>
     getitem cube_bufs (data cube_image) [1, 0, 1, 2] = Inr 25"
proof -
  have n: "2 < naxis (hdr cube_image)" "nat (naxis (hdr cube_image) - 2) = 2"
    by (simp_all add: cube_image_def)
  have wf: "length (shape (data cube_image)) = nat (naxis (hdr cube_image)) \<and>
          list_all ((<) 0) (take (nat (naxis (hdr cube_image) - 2)) (shape (data cube_image))) \<and>
          2 \<le> length (crpix (wcs_of (hdr cube_image))) \<and>
          2 \<le> length (ctype (wcs_of (hdr cube_image)))"
    by (simp add: cube_image_def)
  from flatten_first_plane[OF n(1), of cube_bufs] wf obtain h d where
    fl: "flatten cube_image = Inr (h, d)" by blast
  with flatten_first_plane[OF n(1), of cube_bufs]
  have "naxis h = 2" and "shape d = drop 2 (shape (data cube_image))"
    and "getitem cube_bufs d [1, 2] = getitem cube_bufs (data cube_image) (replicate 2 0 @ [1, 2])"
    unfolding n(2) by blast+
  moreover have "getitem cube_bufs (data cube_image) [0, 0, 1, 2] = Inr 15"
    "getitem cube_bufs (data cube_image) [1, 0, 1, 2] = Inr 25"
    by (simp_all add: getitem_def cube_image_def cube_bufs_def)
  ultimately show ?thesis
    using fl by (simp add: cube_image_def numeral_2_eq_2)
qed

subsection \<open>applyregion\<close>

text \<open>
  The constructor in one step: the elements at the true positions of the mask, less the
  background, go to a new buffer; nothing else changes.
\<close>

lemma ravel_fresh:
  "ravel (bs @ [zs]) \<lparr>buf = length bs, shape = [length zs]\<rparr> = zs"
  by (simp add: ravel_def)

lemma isub_fresh:
  "isub \<lparr>buf = length (bufs h), shape = [length zs]\<rparr> v (h\<lparr>bufs := bufs h @ [zs]\<rparr>) =
     h\<lparr>bufs := bufs h @ [map (\<lambda>x. x - v) zs]\<rparr>"
  by (simp add: isub_def)

lemma np_extract_fresh:
  "np_extract msk arr h =
     (let zs = map (\<lambda>i. ravel (bufs h) arr ! i) (nonzero msk)
      in if list_all (\<lambda>i. i < length (ravel (bufs h) arr)) (nonzero msk)
         then (Inr \<lparr>buf = length (bufs h), shape = [length zs]\<rparr>, h\<lparr>bufs := bufs h @ [zs]\<rparr>)
         else (Inl IndexError, h))"
  by (simp add: np_extract_def Let_def)

lemma applyregion_cases:
  "applyregion rm region ex h =
     (let self_rm = objs h ! rm;
          msk = region (rm_f self_rm) (shape (rm_d self_rm));
          xs = ravel (bufs h) (rm_d self_rm);
          idx = nonzero msk;
          bgval = (case background ex of None \<Rightarrow> 0 | Some b \<Rightarrow> b);
          ys = map (\<lambda>i. xs ! i - bgval) idx
      in if list_all (\<lambda>i. i < length xs) idx
         then (Inr \<lparr>pixels = np_sum_mask msk, rms = np_std ys,
                    flux = sum_list ys / area self_rm, mean = np_mean ys,
                    error = (case offsource ex of
                               None \<Rightarrow> None
                             | Some noise \<Rightarrow>
                                 Some (noise * sqrt (real (np_sum_mask msk) / area self_rm)))\<rparr>,
               h\<lparr>bufs := bufs h @ [ys]\<rparr>)
         else (Inl IndexError, h))"
proof (cases "list_all (\<lambda>i. i < length (ravel (bufs h) (rm_d (objs h ! rm))))
                (nonzero (region (rm_f (objs h ! rm)) (shape (rm_d (objs h ! rm)))))")
  case True
  let ?zs = "map (\<lambda>i. ravel (bufs h) (rm_d (objs h ! rm)) ! i)
               (nonzero (region (rm_f (objs h ! rm)) (shape (rm_d (objs h ! rm)))))"
  have e: "np_extract (region (rm_f (objs h ! rm)) (shape (rm_d (objs h ! rm)))) (rm_d (objs h ! rm)) h =
             (Inr \<lparr>buf = length (bufs h), shape = [length ?zs]\<rparr>, h\<lparr>bufs := bufs h @ [?zs]\<rparr>)"
    using True by (simp only: np_extract_fresh Let_def if_True)
  show ?thesis
    unfolding applyregion_def Let_def e
    using True
    by (simp only: prod.case sum.case isub_fresh if_True)
       (simp add: ravel_fresh[of "bufs h" "map f xs" for f xs, simplified] comp_def
          cong: option.case_cong)
next
  case False
  then show ?thesis
    by (simp add: applyregion_def np_extract_fresh Let_def)
qed

lemma nonzero_in_range: "list_all (\<lambda>i. i < length msk) (nonzero msk)"
  by (simp add: nonzero_def list_all_iff)

text \<open>
  C8. When an off-source noise is passed and the beam area is positive, the error of the
  measurement is \<open>noise * sqrt (pixels / area)\<close>, where \<open>pixels\<close> is the number of true entries
  of the mask; and there is a measurement when the mask is no larger than the map. With
  noise 2, 16 pixels and area 4 the error is 4.
\<close>

theorem offsource_error:
  assumes "offsource ex = Some noise"
    and "0 < area (objs h ! rm)"
  shows "(\<forall>m h'. applyregion rm region ex h = (Inr m, h') \<longrightarrow>
            pixels m = length (filter id (region (rm_f (objs h ! rm)) (shape (rm_d (objs h ! rm))))) \<and>
            error m = Some (noise * sqrt (real (pixels m) / area (objs h ! rm)))) \<and>
         (length (region (rm_f (objs h ! rm)) (shape (rm_d (objs h ! rm))))
            \<le> length (ravel (bufs h) (rm_d (objs h ! rm))) \<longrightarrow>
          (\<exists>m h'. applyregion rm region ex h = (Inr m, h')))"
proof (intro conjI allI impI)
  fix m h'
  assume "applyregion rm region ex h = (Inr m, h')"
  with assms(1)
  show "pixels m = length (filter id (region (rm_f (objs h ! rm)) (shape (rm_d (objs h ! rm)))))"
    and "error m = Some (noise * sqrt (real (pixels m) / area (objs h ! rm)))"
    by (auto simp: applyregion_cases Let_def np_sum_mask_def split: if_splits)
next
  let ?msk = "region (rm_f (objs h ! rm)) (shape (rm_d (objs h ! rm)))"
  assume "length ?msk \<le> length (ravel (bufs h) (rm_d (objs h ! rm)))"
  then have "list_all (\<lambda>i. i < length (ravel (bufs h) (rm_d (objs h ! rm)))) (nonzero ?msk)"
    using nonzero_in_range[of ?msk] by (auto simp: list_all_iff)
  then show "\<exists>m h'. applyregion rm region ex h = (Inr m, h')"
    by (simp add: applyregion_cases Let_def)
qed

theorem offsource_error_witness:
  "\<exists>m h'. applyregion 0 whole_region \<lparr>background = None, offsource = Some 2\<rparr> flux_heap = (Inr m, h') \<and>
     area (objs flux_heap ! 0) = 4 \<and> pixels m = 16 \<and> error m = Some 4"
proof -
  let ?ex = "\<lparr>background = None, offsource = Some 2\<rparr>"
  have o: "offsource ?ex = Some 2" by simp
  have ar: "area (objs flux_heap ! 0) = 4" "0 < area (objs flux_heap ! 0)"
    by (simp_all add: flux_heap_def flux_map_def)
  have sz: "length (whole_region (rm_f (objs flux_heap ! 0)) (shape (rm_d (objs flux_heap ! 0))))
              \<le> length (ravel (bufs flux_heap) (rm_d (objs flux_heap ! 0)))"
    by (simp add: flux_heap_def flux_map_def flux_image_def whole_region_def ravel_def)
  from offsource_error[OF o ar(2), of whole_region] sz obtain m h' where
    ap: "applyregion 0 whole_region ?ex flux_heap = (Inr m, h')"
    by blast
  with offsource_error[OF o ar(2), of whole_region] ar(1)
  have "pixels m = 16" and "error m = Some (2 * sqrt (real (pixels m) / 4))"
    by (simp_all add: flux_heap_def flux_map_def flux_image_def whole_region_def)
  then have "error m = Some 4" by simp
  with ap ar \<open>pixels m = 16\<close> show ?thesis by blast
qed

text \<open>
  C9. \<^verbatim>\<open>applyregion\<close> changes no \<^verbatim>\<open>radiomap\<close> object (so neither its header nor its
  beam area) and no buffer that existed before the call, so the pixels of the map are the
  same after the call: the background is subtracted in the new array that
  \<^verbatim>\<open>np.extract\<close> returned. The measurement depends on the heap only through the map object
  and the pixels of the map.
\<close>

theorem applyregion_frame:
  assumes "applyregion rm region ex h = (r, h')"
    and "buf (rm_d (objs h ! rm)) < length (bufs h)"
  shows "objs h' = objs h \<and> take (length (bufs h)) (bufs h') = bufs h \<and>
         ravel (bufs h') (rm_d (objs h' ! rm)) = ravel (bufs h) (rm_d (objs h ! rm)) \<and>
         (\<forall>g. objs g ! rm = objs h ! rm \<and>
               ravel (bufs g) (rm_d (objs g ! rm)) = ravel (bufs h) (rm_d (objs h ! rm)) \<longrightarrow>
               fst (applyregion rm region ex g) = r)"
proof -
  from assms(1) have o: "objs h' = objs h"
    and b: "bufs h' = bufs h \<or> (\<exists>ys. bufs h' = bufs h @ [ys])"
    by (auto simp: applyregion_cases Let_def split: if_splits)
  from b have t: "take (length (bufs h)) (bufs h') = bufs h" by auto
  from b assms(2) have "bufs h' ! buf (rm_d (objs h ! rm)) = bufs h ! buf (rm_d (objs h ! rm))"
    by (auto simp: nth_append)
  then have rv: "ravel (bufs h') (rm_d (objs h' ! rm)) = ravel (bufs h) (rm_d (objs h ! rm))"
    by (simp add: ravel_def o)
  have "fst (applyregion rm region ex g) = r"
    if "objs g ! rm = objs h ! rm \<and>
        ravel (bufs g) (rm_d (objs g ! rm)) = ravel (bufs h) (rm_d (objs h ! rm))" for g
  proof -
    from that have a: "objs g ! rm = objs h ! rm"
      and b: "ravel (bufs g) (rm_d (objs h ! rm)) = ravel (bufs h) (rm_d (objs h ! rm))"
      by metis+
    have "fst (applyregion rm region ex g) = fst (applyregion rm region ex h)"
      by (simp add: applyregion_cases Let_def a b)
    with assms(1) show ?thesis by simp
  qed
  with o t rv show ?thesis by blast
qed

theorem applyregion_frame_witness:
  "\<exists>m h'. applyregion 0 corner_region \<lparr>background = Some 1, offsource = None\<rparr> flux_heap = (Inr m, h') \<and>
     flux m = 5 / 2 \<and> objs h' = objs flux_heap \<and>
     bufs h' = bufs flux_heap @ [[0, 1, 4, 5]] \<and>
     ravel (bufs h') (rm_d (objs h' ! 0)) = ravel (bufs flux_heap) (rm_d (objs flux_heap ! 0)) \<and>
     fst (applyregion 0 corner_region \<lparr>background = Some 1, offsource = None\<rparr>
            (flux_heap\<lparr>bufs := bufs flux_heap @ [[9, 9]]\<rparr>)) = Inr m"
proof -
  let ?ex = "\<lparr>background = Some 1, offsource = None\<rparr>"
  have nz: "nonzero [True, True, False, False, True, True, False, False,
                     False, False, False, False, False, False, False, False] = [0, 1, 4, 5]"
    by (simp add: nonzero_def upt_rec)
  have "\<exists>m h'. applyregion 0 corner_region ?ex flux_heap = (Inr m, h') \<and>
          flux m = 5 / 2 \<and> bufs h' = bufs flux_heap @ [[0, 1, 4, 5]]"
    by (simp add: applyregion_cases Let_def flux_heap_def flux_map_def flux_image_def corner_region_def
        nz ravel_def)
  then obtain m h' where ap: "applyregion 0 corner_region ?ex flux_heap = (Inr m, h')"
    and fl: "flux m = 5 / 2" and bf: "bufs h' = bufs flux_heap @ [[0, 1, 4, 5]]"
    by blast
  have v: "buf (rm_d (objs flux_heap ! 0)) < length (bufs flux_heap)"
    by (simp add: flux_heap_def flux_map_def flux_image_def)
  let ?g = "flux_heap\<lparr>bufs := bufs flux_heap @ [[9, 9]]\<rparr>"
  have g: "objs ?g ! 0 = objs flux_heap ! 0 \<and>
           ravel (bufs ?g) (rm_d (objs ?g ! 0)) = ravel (bufs flux_heap) (rm_d (objs flux_heap ! 0))"
    by (simp add: flux_heap_def flux_map_def flux_image_def ravel_def)
  from applyregion_frame[OF ap v] g fl bf ap show ?thesis by blast
qed

end
